theory Spec2Isabelle
  imports
    Complex_Main
    "HOL-Library.Finite_Map"
    "HOL-Library.Monad_Syntax"
    "HOL-Library.Char_ord"
    "HOL-Library.List_Lexorder"
    "HOL-Library.AList"
    "HOL-Library.Sublist"
    "HOL-Library.Multiset"
begin

section \<open>The comparative analysis engine of the news analyzer\<close>

text \<open>
  This theory embeds the four functions \<^verbatim>\<open>compare_articles\<close>,
  \<^verbatim>\<open>generate_impact_analysis\<close>, \<^verbatim>\<open>get_overall_sentiment\<close> and
  \<^verbatim>\<open>generate_final_sentiment_text\<close> of \<^verbatim>\<open>communication/utils.py\<close>.

  The functions are duck-typed: they read their arguments with \<^verbatim>\<open>.get\<close> and rely on
  \<^verbatim>\<open>try\<close>/\<^verbatim>\<open>except Exception\<close> for everything that does not fit. The embedding
  therefore works on a type of Python values and makes every operation that can raise
  return an \<open>option\<close>: \<open>None\<close> stands for a raised exception (an \<^verbatim>\<open>AttributeError\<close>
  or a \<^verbatim>\<open>TypeError\<close>; every handler of the source catches \<^verbatim>\<open>Exception\<close>, so the
  kind of the exception is never observed). Logging has no effect on any returned value
  and is left out.
\<close>

subsection \<open>Python values\<close>

text \<open>
  The values that reach the engine are JSON-like: \<^verbatim>\<open>None\<close>, integers, strings, lists
  and dictionaries with string keys. A dictionary is a finite map, so that two
  dictionaries are equal exactly when Python's \<^verbatim>\<open>==\<close> says so; the engine never
  depends on the insertion order of a dictionary it receives. Floats and booleans
  are not part of the model (the \<^verbatim>\<open>score\<close> of a sentiment is never read by the engine).
\<close>

datatype pyval =
    PNone
  | PInt int
  | PStr string
  | PList "pyval list"
  | PDict "(string, pyval) fmap"

text \<open>\<^verbatim>\<open>d.get(k, default)\<close>: only a dictionary has the method.\<close>

fun py_get :: "pyval \<Rightarrow> string \<Rightarrow> pyval \<Rightarrow> pyval option" where
  "py_get (PDict m) k dflt = Some (case fmlookup m k of None \<Rightarrow> dflt | Some v \<Rightarrow> v)"
| "py_get _ k dflt = None"

text \<open>
  \<^verbatim>\<open>k in x\<close> for a string \<open>k\<close>: key membership for a dictionary, substring test for a
  string, element test for a list, a \<^verbatim>\<open>TypeError\<close> otherwise.
\<close>

fun py_in :: "string \<Rightarrow> pyval \<Rightarrow> bool option" where
  "py_in k (PDict m) = Some (k |\<in>| fmdom m)"
| "py_in k (PStr s) = Some (sublist k s)"
| "py_in k (PList xs) = Some (PStr k \<in> set xs)"
| "py_in k _ = None"

text \<open>Truthiness, as \<^verbatim>\<open>not x\<close> and \<^verbatim>\<open>if x\<close> use it.\<close>

fun py_truthy :: "pyval \<Rightarrow> bool" where
  "py_truthy PNone = False"
| "py_truthy (PInt i) = (i \<noteq> 0)"
| "py_truthy (PStr s) = (s \<noteq> [])"
| "py_truthy (PList xs) = (xs \<noteq> [])"
| "py_truthy (PDict m) = (m \<noteq> fmempty)"

fun hashable :: "pyval \<Rightarrow> bool" where
  "hashable (PList xs) = False"
| "hashable (PDict m) = False"
| "hashable _ = True"

fun is_str :: "pyval \<Rightarrow> bool" where
  "is_str (PStr s) = True"
| "is_str _ = False"

fun str_of :: "pyval \<Rightarrow> string" where
  "str_of (PStr s) = s"
| "str_of _ = []"

text \<open>
  A Python \<^verbatim>\<open>set\<close> is modelled by the duplicate-free list of its elements. The order of
  that list has no meaning: the order in which Python iterates over a set depends on
  the hashes of the elements and is fixed only when the set is turned into a list (see
  \<open>set_iter\<close> below). \<^verbatim>\<open>set(x)\<close> iterates over \<open>x\<close>: the elements of a list (all of which
  must be hashable), the characters of a string, the keys of a dictionary.
\<close>

fun py_set :: "pyval \<Rightarrow> pyval list option" where
  "py_set (PList xs) = (if list_all hashable xs then Some (remdups xs) else None)"
| "py_set (PStr s) = Some (remdups (map (\<lambda>c. PStr [c]) s))"
| "py_set (PDict m) = Some (map PStr (sorted_list_of_fset (fmdom m)))"
| "py_set _ = None"

text \<open>
  \<^verbatim>\<open>x[:3]\<close>, given by the sequence of the elements of the slice: a list and a string
  can be sliced (the elements of a string are its characters), anything else raises.
\<close>

fun py_slice3 :: "pyval \<Rightarrow> pyval list option" where
  "py_slice3 (PList xs) = Some (take 3 xs)"
| "py_slice3 (PStr s) = Some (map (\<lambda>c. PStr [c]) (take 3 s))"
| "py_slice3 _ = None"

fun join_str :: "string \<Rightarrow> string list \<Rightarrow> string" where
  "join_str sep [] = []"
| "join_str sep [x] = x"
| "join_str sep (x # y # ys) = x @ sep @ join_str sep (y # ys)"

text \<open>\<^verbatim>\<open>sep.join(xs)\<close> raises a \<^verbatim>\<open>TypeError\<close> unless every element is a string.\<close>

definition py_join :: "string \<Rightarrow> pyval list \<Rightarrow> string option" where
  "py_join sep xs = (if list_all is_str xs then Some (join_str sep (map str_of xs)) else None)"

text \<open>Decimal digits of a natural number and of an integer, as \<^verbatim>\<open>str\<close> prints them.\<close>

fun show_nat :: "nat \<Rightarrow> string" where
  "show_nat n =
     (if n < 10 then [''0123456789'' ! n]
      else show_nat (n div 10) @ [''0123456789'' ! (n mod 10)])"

declare show_nat.simps [simp del]

definition show_int :: "int \<Rightarrow> string" where
  "show_int i = (if i < 0 then CHR ''-'' # show_nat (nat (- i)) else show_nat (nat i))"

text \<open>
  \<^verbatim>\<open>str.lower()\<close> on ASCII letters; bytes outside \<^verbatim>\<open>A\<close>..\<^verbatim>\<open>Z\<close> are kept. Only a string
  has the method.
\<close>

definition lower_char :: "char \<Rightarrow> char" where
  "lower_char c =
     (let n = of_char c :: nat in if 65 \<le> n \<and> n \<le> 90 then char_of (n + 32) else c)"

fun py_lower :: "pyval \<Rightarrow> string option" where
  "py_lower (PStr s) = Some (map lower_char s)"
| "py_lower _ = None"

text \<open>
  Two things are decided by the Python interpreter and not by the source: the order in
  which a set is iterated when \<^verbatim>\<open>list(s)\<close> is built from it, and the text that an
  f-string produces for a list or a dictionary. Both are parameters of the model.
\<close>

record runtime =
  set_iter :: "pyval list \<Rightarrow> pyval list"
  repr :: "pyval \<Rightarrow> string"

text \<open>
  What the language promises about \<^verbatim>\<open>list(s)\<close>: every element of the set, once.
\<close>

definition iter_ok :: "runtime \<Rightarrow> bool" where
  "iter_ok rt \<longleftrightarrow> (\<forall>xs. mset (set_iter rt xs) = mset xs)"

text \<open>Formatting a value inside an f-string.\<close>

fun py_format :: "runtime \<Rightarrow> pyval \<Rightarrow> string" where
  "py_format rt (PStr s) = s"
| "py_format rt PNone = ''None''"
| "py_format rt (PInt i) = show_int i"
| "py_format rt v = repr rt v"

text \<open>A \<^verbatim>\<open>try\<close> block with one \<^verbatim>\<open>except Exception\<close> handler.\<close>

definition try_except :: "'a option \<Rightarrow> 'a option \<Rightarrow> 'a option" where
  "try_except body handler = (case body of None \<Rightarrow> handler | Some v \<Rightarrow> Some v)"

subsection \<open>The impact analyzer\<close>

text \<open>\<^verbatim>\<open>a.get('sentiment', {}).get('label', default)\<close>\<close>

definition sentiment_label :: "pyval \<Rightarrow> pyval \<Rightarrow> pyval option" where
  "sentiment_label a dflt = do {
     s \<leftarrow> py_get a ''sentiment'' (PDict fmempty);
     py_get s ''label'' dflt
   }"

definition shared_text :: string where
  "shared_text = ''Both articles share similar sentiment, reinforcing the same perception.''"

definition uncertainty_text :: string where
  "uncertainty_text =
     ''The conflicting sentiment between these articles may create market uncertainty. '' @
     ''Investors might need to evaluate both perspectives before making decisions.''"

definition interpretations_text :: string where
  "interpretations_text =
     ''The contrasting views present a complex picture. '' @
     ''This divergence suggests the company's situation has multiple interpretations.''"

definition counterbalance_text :: "string \<Rightarrow> string" where
  "counterbalance_text other =
     ''The '' @ other @
     '' sentiment in one article is counterbalanced by a neutral perspective in the other.''"

definition fallback_text :: string where
  "fallback_text = ''The articles present different aspects of the company's situation.''"

definition unavailable_text :: string where
  "unavailable_text = ''Impact analysis not available.''"

definition impact_body :: "pyval \<Rightarrow> pyval \<Rightarrow> string option" where
  "impact_body article1 article2 = do {
     sentiment1 \<leftarrow> sentiment_label article1 (PStr ''Unknown'');
     sentiment2 \<leftarrow> sentiment_label article2 (PStr ''Unknown'');
     if sentiment1 = sentiment2 then Some shared_text
     else if sentiment1 = PStr ''Positive'' \<and> sentiment2 = PStr ''Negative''
       then Some uncertainty_text
     else if sentiment1 = PStr ''Negative'' \<and> sentiment2 = PStr ''Positive''
       then Some interpretations_text
     else if sentiment1 = PStr ''Neutral'' \<or> sentiment2 = PStr ''Neutral''
       then do {
         other \<leftarrow> py_lower (if sentiment2 = PStr ''Neutral'' then sentiment1 else sentiment2);
         Some (counterbalance_text other)
       }
     else Some fallback_text
   }"

definition generate_impact_analysis :: "pyval \<Rightarrow> pyval \<Rightarrow> string option" where
  "generate_impact_analysis article1 article2 =
     try_except (impact_body article1 article2) (Some unavailable_text)"

subsection \<open>The result of a comparison\<close>

record distribution =
  Positive :: nat
  Negative :: nat
  Neutral :: nat

record coverage_difference =
  Comparison :: string
  Impact :: string

record topic_overlap =
  Common_Topics :: "pyval list"
  Unique_Topics :: "pyval list list"

record analysis =
  Sentiment_Distribution :: distribution
  Coverage_Differences :: "coverage_difference list"
  Topic_Overlap :: topic_overlap

definition default_analysis :: analysis where
  "default_analysis =
     \<lparr> Sentiment_Distribution = \<lparr> Positive = 0, Negative = 0, Neutral = 0 \<rparr>,
       Coverage_Differences = [],
       Topic_Overlap = \<lparr> Common_Topics = [], Unique_Topics = [] \<rparr> \<rparr>"

subsection \<open>The sentiment aggregator\<close>

text \<open>
  \<^verbatim>\<open>sum(1 for a in articles if a.get('sentiment', {}).get('label') == l)\<close>: the
  articles are visited in order and the first one that raises ends the sum.
\<close>

fun count_label :: "string \<Rightarrow> pyval list \<Rightarrow> nat option" where
  "count_label l [] = Some 0"
| "count_label l (a # as) = do {
     v \<leftarrow> sentiment_label a PNone;
     n \<leftarrow> count_label l as;
     Some ((if v = PStr l then 1 else 0) + n)
   }"

definition sentiment_distribution :: "pyval list \<Rightarrow> distribution option" where
  "sentiment_distribution articles = do {
     p \<leftarrow> count_label ''Positive'' articles;
     n \<leftarrow> count_label ''Negative'' articles;
     u \<leftarrow> count_label ''Neutral'' articles;
     Some \<lparr> Positive = p, Negative = n, Neutral = u \<rparr>
   }"

subsection \<open>The topic overlap resolver\<close>

text \<open>\<^verbatim>\<open>[set(a.get('topics', [])) for a in articles if 'topics' in a]\<close>\<close>

fun all_topics_of :: "pyval list \<Rightarrow> pyval list list option" where
  "all_topics_of [] = Some []"
| "all_topics_of (a # as) = do {
     has \<leftarrow> py_in ''topics'' a;
     if has then do {
       t \<leftarrow> py_get a ''topics'' (PList []);
       s \<leftarrow> py_set t;
       rest \<leftarrow> all_topics_of as;
       Some (s # rest)
     } else all_topics_of as
   }"

text \<open>\<^verbatim>\<open>set.intersection(*all_topics) if all_topics else set()\<close>\<close>

fun set_intersection :: "pyval list list \<Rightarrow> pyval list" where
  "set_intersection [] = []"
| "set_intersection (s # rest) = filter (\<lambda>t. \<forall>r \<in> set rest. t \<in> set r) s"

text \<open>
  The fallback counts, for every topic, the topic sets it occurs in. \<open>topic_counts\<close> is
  the dictionary of the source, kept as an association list in insertion order.
\<close>

definition bump :: "(pyval \<times> nat) list \<Rightarrow> pyval \<Rightarrow> (pyval \<times> nat) list" where
  "bump topic_counts topic =
     AList.update topic ((case map_of topic_counts topic of None \<Rightarrow> 0 | Some c \<Rightarrow> c) + 1)
       topic_counts"

definition count_topics :: "pyval list list \<Rightarrow> (pyval \<times> nat) list" where
  "count_topics all_topics = foldl (\<lambda>tc topic_set. foldl bump tc topic_set) [] all_topics"

text \<open>
  \<^verbatim>\<open>max(2, len(all_topics) * 0.3)\<close>. The product is a float in the source and an exact
  rational here; a count is an integer, and comparing an integer with either gives the
  same answer as long as the number of topic sets stays below \<open>2\<^sup>5\<^sup>0\<close>.
\<close>

definition threshold :: "pyval list list \<Rightarrow> rat" where
  "threshold all_topics = max 2 (of_nat (length all_topics) * (3 / 10))"

definition frequent_topics :: "pyval list list \<Rightarrow> pyval list" where
  "frequent_topics all_topics =
     map fst (filter (\<lambda>(topic, count). threshold all_topics \<le> of_nat count)
       (count_topics all_topics))"

definition common_topics_of :: "pyval list list \<Rightarrow> pyval list" where
  "common_topics_of all_topics =
     (let common = (if all_topics \<noteq> [] then set_intersection all_topics else [])
      in if common = [] \<and> all_topics \<noteq> [] then frequent_topics all_topics else common)"

text \<open>\<^verbatim>\<open>list(topic_set - common_topics)\<close> for every topic set.\<close>

definition unique_topics_of :: "runtime \<Rightarrow> pyval list list \<Rightarrow> pyval list \<Rightarrow> pyval list list" where
  "unique_topics_of rt all_topics common =
     map (\<lambda>topic_set. set_iter rt (filter (\<lambda>t. t \<notin> set common) topic_set)) all_topics"

subsection \<open>The coverage difference generator\<close>

text \<open>The phrase \<^verbatim>\<open>', '.join(topics) if topics else 'the subject'\<close>.\<close>

definition topics_phrase :: "pyval list \<Rightarrow> string option" where
  "topics_phrase topics = (if topics \<noteq> [] then py_join '', '' topics else Some ''the subject'')"

definition comparison_text ::
  "string \<Rightarrow> string \<Rightarrow> string \<Rightarrow> string \<Rightarrow> string \<Rightarrow> string \<Rightarrow> string" where
  "comparison_text title_i label_i phrase_i title_j label_j phrase_j =
     ''Article '' @ [CHR 0x27] @ title_i @ [CHR 0x27] @ '' has '' @ label_i @
     '' sentiment about '' @ phrase_i @ '', while '' @
     ''Article '' @ [CHR 0x27] @ title_j @ [CHR 0x27] @ '' has '' @ label_j @
     '' sentiment about '' @ phrase_j @ ''.''"

text \<open>
  The body of the inner loop for a pair whose labels differ: the two slices, the
  f-string (its expressions are evaluated from left to right) and the impact.
\<close>

definition difference_entry ::
  "runtime \<Rightarrow> nat \<Rightarrow> pyval \<Rightarrow> nat \<Rightarrow> pyval \<Rightarrow> coverage_difference option" where
  "difference_entry rt i ai j aj = do {
     topics_i \<leftarrow> py_get ai ''topics'' (PList []) \<bind> py_slice3;
     topics_j \<leftarrow> py_get aj ''topics'' (PList []) \<bind> py_slice3;
     title_i \<leftarrow> py_get ai ''title'' (PStr (''Article '' @ show_nat (i + 1)));
     label_i \<leftarrow> sentiment_label ai (PStr ''Unknown'');
     phrase_i \<leftarrow> topics_phrase topics_i;
     title_j \<leftarrow> py_get aj ''title'' (PStr (''Article '' @ show_nat (j + 1)));
     label_j \<leftarrow> sentiment_label aj (PStr ''Unknown'');
     phrase_j \<leftarrow> topics_phrase topics_j;
     impact \<leftarrow> generate_impact_analysis ai aj;
     Some \<lparr> Comparison =
              comparison_text (py_format rt title_i) (py_format rt label_i) phrase_i
                (py_format rt title_j) (py_format rt label_j) phrase_j,
            Impact = impact \<rparr>
   }"

text \<open>
  The two loops. The inner one runs over \<^verbatim>\<open>range(i+1, min(i+3, len(articles)))\<close>, the
  outer one over \<^verbatim>\<open>range(len(articles))\<close>; both append to \<open>coverage_differences\<close>.
  Every index that is read is below the length of the list.
\<close>

fun inner_loop ::
  "runtime \<Rightarrow> pyval list \<Rightarrow> nat \<Rightarrow> nat list \<Rightarrow> coverage_difference list \<Rightarrow>
   coverage_difference list option" where
  "inner_loop rt articles i [] coverage_differences = Some coverage_differences"
| "inner_loop rt articles i (j # js) coverage_differences = do {
     label_i \<leftarrow> sentiment_label (articles ! i) PNone;
     label_j \<leftarrow> sentiment_label (articles ! j) PNone;
     if label_i \<noteq> label_j then do {
       entry \<leftarrow> difference_entry rt i (articles ! i) j (articles ! j);
       inner_loop rt articles i js (coverage_differences @ [entry])
     } else inner_loop rt articles i js coverage_differences
   }"

fun outer_loop ::
  "runtime \<Rightarrow> pyval list \<Rightarrow> nat list \<Rightarrow> coverage_difference list \<Rightarrow>
   coverage_difference list option" where
  "outer_loop rt articles [] coverage_differences = Some coverage_differences"
| "outer_loop rt articles (i # is) coverage_differences = do {
     coverage_differences' \<leftarrow>
       inner_loop rt articles i [i + 1 ..< min (i + 3) (length articles)] coverage_differences;
     outer_loop rt articles is coverage_differences'
   }"

definition coverage_differences_of :: "runtime \<Rightarrow> pyval list \<Rightarrow> coverage_difference list option" where
  "coverage_differences_of rt articles = outer_loop rt articles [0 ..< length articles] []"

subsection \<open>compare_articles\<close>

definition compare_body :: "runtime \<Rightarrow> pyval list \<Rightarrow> analysis option" where
  "compare_body rt articles = do {
     sentiment_distribution \<leftarrow> sentiment_distribution articles;
     all_topics \<leftarrow> all_topics_of articles;
     let common_topics = common_topics_of all_topics;
     coverage_differences \<leftarrow> coverage_differences_of rt articles;
     let unique_topics = unique_topics_of rt all_topics common_topics;
     Some \<lparr> Sentiment_Distribution = sentiment_distribution,
            Coverage_Differences = take 5 coverage_differences,
            Topic_Overlap = \<lparr> Common_Topics = set_iter rt common_topics,
                              Unique_Topics = unique_topics \<rparr> \<rparr>
   }"

definition compare_articles :: "runtime \<Rightarrow> pyval list \<Rightarrow> analysis option" where
  "compare_articles rt articles =
     (if articles = [] then Some default_analysis
      else try_except (compare_body rt articles) (Some default_analysis))"

subsection \<open>The overall sentiment classifier and the narrator\<close>

text \<open>
  \<^verbatim>\<open>d.values()\<close> and \<^verbatim>\<open>sum\<close>, which starts from the integer 0 and raises a
  \<^verbatim>\<open>TypeError\<close> at the first value that is not a number. The values are listed by
  key; the sum does not depend on the order.
\<close>

fun py_values :: "pyval \<Rightarrow> pyval list option" where
  "py_values (PDict m) = Some (map snd (sorted_list_of_fmap m))"
| "py_values _ = None"

fun py_sum :: "pyval list \<Rightarrow> int option" where
  "py_sum [] = Some 0"
| "py_sum (PInt i # vs) = map_option (\<lambda>s. i + s) (py_sum vs)"
| "py_sum (_ # vs) = None"

text \<open>
  \<^verbatim>\<open>x / total\<close> for a non-zero integer \<open>total\<close>: true division of integers, a
  \<^verbatim>\<open>TypeError\<close> for anything else. The quotient is an exact rational here. It is a
  correctly rounded float in the source, where the comparisons with \<^verbatim>\<open>0.6\<close> and
  \<^verbatim>\<open>0.4\<close> give the same answers for counts between 0 and \<open>2\<^sup>5\<^sup>0\<close>. (Integers too large
  for a float, for which the source raises an \<^verbatim>\<open>OverflowError\<close> and answers Neutral,
  are outside the model.)
\<close>

fun py_div :: "pyval \<Rightarrow> int \<Rightarrow> rat option" where
  "py_div (PInt x) d = Some (of_int x / of_int d)"
| "py_div _ d = None"

definition overall_body :: "pyval \<Rightarrow> string option" where
  "overall_body analysis_data = do {
     sentiment_dist \<leftarrow> py_get analysis_data ''Sentiment Distribution'' (PDict fmempty);
     total \<leftarrow> py_values sentiment_dist \<bind> py_sum;
     if total = 0 then Some ''Neutral''
     else do {
       positive_ratio \<leftarrow> py_get sentiment_dist ''Positive'' (PInt 0) \<bind> (\<lambda>x. py_div x total);
       negative_ratio \<leftarrow> py_get sentiment_dist ''Negative'' (PInt 0) \<bind> (\<lambda>x. py_div x total);
       if positive_ratio > 6 / 10 then Some ''Very Positive''
       else if positive_ratio > 4 / 10 then Some ''Moderately Positive''
       else if negative_ratio > 6 / 10 then Some ''Very Negative''
       else if negative_ratio > 4 / 10 then Some ''Moderately Negative''
       else Some ''Mixed or Neutral''
     }
   }"

definition get_overall_sentiment :: "pyval \<Rightarrow> string option" where
  "get_overall_sentiment analysis_data =
     (if \<not> py_truthy analysis_data then Some ''Neutral''
      else try_except (overall_body analysis_data) (Some ''Neutral''))"

definition final_body :: "string \<Rightarrow> pyval \<Rightarrow> string \<Rightarrow> string option" where
  "final_body company_name analysis_data overall = do {
     sentiment_dist \<leftarrow> py_get analysis_data ''Sentiment Distribution'' (PDict fmempty);
     total \<leftarrow> py_values sentiment_dist \<bind> py_sum;
     if total = 0
       then Some (''No reliable sentiment data available for '' @ company_name @ ''.'')
     else if overall = ''Very Positive''
       then Some (company_name @ [CHR 0x27] @ ''s latest news coverage is overwhelmingly positive. '' @
         ''The company is receiving favorable attention which may indicate strong performance.'')
     else if overall = ''Moderately Positive''
       then Some (company_name @ [CHR 0x27] @ ''s recent news coverage leans positive. '' @
         ''The company appears to be performing well despite some challenges.'')
     else if overall = ''Very Negative''
       then Some (company_name @ [CHR 0x27] @ ''s latest news coverage is predominantly negative. '' @
         ''The company may be facing significant challenges that could impact its performance.'')
     else if overall = ''Moderately Negative''
       then Some (company_name @ [CHR 0x27] @ ''s recent news coverage tends to be negative. '' @
         ''The company appears to be facing some challenges that warrant attention.'')
     else Some (company_name @ [CHR 0x27] @ ''s recent news coverage shows mixed sentiment. '' @
         ''The company has both positive developments and challenges to navigate.'')
   }"

definition inconclusive_text :: "string \<Rightarrow> string" where
  "inconclusive_text company_name =
     ''Analysis of '' @ company_name @ [CHR 0x27] @ ''s recent news coverage is inconclusive.''"

definition generate_final_sentiment_text :: "string \<Rightarrow> pyval \<Rightarrow> string option" where
  "generate_final_sentiment_text company_name analysis_data = do {
     overall \<leftarrow> get_overall_sentiment analysis_data;
     try_except (final_body company_name analysis_data overall)
       (Some (inconclusive_text company_name))
   }"

subsection \<open>Article records and the notions the properties are stated with\<close>

text \<open>
  An article record as the analysis stage produces it: a dictionary whose \<^verbatim>\<open>title\<close>, if
  present, is a string, whose \<^verbatim>\<open>sentiment\<close>, if present, is a dictionary with a string
  under \<^verbatim>\<open>label\<close> or no label at all, and whose \<^verbatim>\<open>topics\<close>, if present, is a list of
  strings. Every field may be absent.
\<close>

fun absent_or_str :: "pyval option \<Rightarrow> bool" where
  "absent_or_str None = True"
| "absent_or_str (Some t) = is_str t"

fun wf_sentiment :: "pyval option \<Rightarrow> bool" where
  "wf_sentiment None = True"
| "wf_sentiment (Some (PDict s)) = absent_or_str (fmlookup s ''label'')"
| "wf_sentiment (Some _) = False"

fun wf_topics :: "pyval option \<Rightarrow> bool" where
  "wf_topics None = True"
| "wf_topics (Some (PList ts)) = list_all is_str ts"
| "wf_topics (Some _) = False"

fun wf_article :: "pyval \<Rightarrow> bool" where
  "wf_article (PDict m) =
     (absent_or_str (fmlookup m ''title'') \<and> wf_sentiment (fmlookup m ''sentiment'') \<and>
      wf_topics (fmlookup m ''topics''))"
| "wf_article _ = False"

text \<open>
  The label that the coverage difference generator and the aggregator compare
  (\<^verbatim>\<open>.get('label')\<close>, so \<^verbatim>\<open>None\<close> when there is none), whether an article exposes
  \<^verbatim>\<open>topics\<close>, and its topics in input order.
\<close>

definition label_of :: "pyval \<Rightarrow> pyval option" where
  "label_of a = sentiment_label a PNone"

definition has_topics :: "pyval \<Rightarrow> bool" where
  "has_topics a \<longleftrightarrow> py_in ''topics'' a = Some True"

definition topics_of :: "pyval \<Rightarrow> pyval list" where
  "topics_of a = (case py_get a ''topics'' (PList []) of Some (PList ts) \<Rightarrow> ts | _ \<Rightarrow> [])"

definition topic_bearing :: "pyval list \<Rightarrow> pyval list" where
  "topic_bearing articles = filter has_topics articles"

text \<open>
  The pairs of the look-ahead window as the specification describes them: for every
  \<open>i\<close> from 0 to \<open>n - 1\<close> the indices \<open>j = i + 1\<close> and \<open>j = i + 2\<close> with \<open>j < n\<close>, in
  increasing order. \<open>labels_differ\<close> and \<open>entry_at\<close> are the test and the body of the
  inner loop at a pair.
\<close>

definition window_pairs :: "nat \<Rightarrow> (nat \<times> nat) list" where
  "window_pairs n = concat (map (\<lambda>i. map (Pair i) (filter (\<lambda>j. j < n) [i + 1, i + 2])) [0 ..< n])"

definition labels_differ :: "pyval list \<Rightarrow> nat \<times> nat \<Rightarrow> bool" where
  "labels_differ articles p \<longleftrightarrow> label_of (articles ! fst p) \<noteq> label_of (articles ! snd p)"

definition entry_at :: "runtime \<Rightarrow> pyval list \<Rightarrow> nat \<times> nat \<Rightarrow> coverage_difference option" where
  "entry_at rt articles p =
     difference_entry rt (fst p) (articles ! fst p) (snd p) (articles ! snd p)"

text \<open>
  The frequency of a topic across the topic sets, and the threshold as the
  specification words it: \<open>max(2, ceil(0.3 \<times> number_of_topic_sets))\<close>.
\<close>

definition topic_frequency :: "pyval list \<Rightarrow> pyval \<Rightarrow> nat" where
  "topic_frequency articles t =
     length (filter (\<lambda>a. t \<in> set (topics_of a)) (topic_bearing articles))"

definition spec_threshold :: "pyval list \<Rightarrow> int" where
  "spec_threshold articles = max 2 \<lceil>(3 / 10 :: rat) * of_nat (length (topic_bearing articles))\<rceil>"

text \<open>
  The decision table of the impact analyzer as the specification gives it, over two
  label strings, first match first. In the Neutral row the label that is substituted
  is the one that is not Neutral.
\<close>

definition impact_table :: "string \<Rightarrow> string \<Rightarrow> string" where
  "impact_table l1 l2 =
     (if l1 = l2 then shared_text
      else if l1 = ''Positive'' \<and> l2 = ''Negative'' then uncertainty_text
      else if l1 = ''Negative'' \<and> l2 = ''Positive'' then interpretations_text
      else if l1 = ''Neutral'' then counterbalance_text (map lower_char l2)
      else if l2 = ''Neutral'' then counterbalance_text (map lower_char l1)
      else fallback_text)"

text \<open>
  The verdict from the two ratios as the specification gives it (strict tests, in this
  order), the five verdicts, and the analysis data that carries a sentiment
  distribution with the three counts.
\<close>

definition verdict_of :: "rat \<Rightarrow> rat \<Rightarrow> string" where
  "verdict_of positive_ratio negative_ratio =
     (if positive_ratio > 6 / 10 then ''Very Positive''
      else if positive_ratio > 4 / 10 then ''Moderately Positive''
      else if negative_ratio > 6 / 10 then ''Very Negative''
      else if negative_ratio > 4 / 10 then ''Moderately Negative''
      else ''Mixed or Neutral'')"

definition verdicts :: "string list" where
  "verdicts = [''Very Positive'', ''Moderately Positive'', ''Very Negative'',
               ''Moderately Negative'', ''Mixed or Neutral'']"

definition distribution_dict :: "nat \<Rightarrow> nat \<Rightarrow> nat \<Rightarrow> pyval" where
  "distribution_dict p n u =
     PDict (fmap_of_list [(''Positive'', PInt (int p)), (''Negative'', PInt (int n)),
                          (''Neutral'', PInt (int u))])"

definition analysis_data_of :: "nat \<Rightarrow> nat \<Rightarrow> nat \<Rightarrow> pyval" where
  "analysis_data_of p n u =
     PDict (fmap_of_list [(''Sentiment Distribution'', distribution_dict p n u)])"

definition distribution_total :: "analysis \<Rightarrow> nat" where
  "distribution_total r =
     Positive (Sentiment_Distribution r) + Negative (Sentiment_Distribution r) +
     Neutral (Sentiment_Distribution r)"

text \<open>Two runtimes and a few article records for concrete runs.\<close>

definition insertion_runtime :: runtime where
  "insertion_runtime = \<lparr> set_iter = (\<lambda>xs. xs), repr = (\<lambda>v. ''...'') \<rparr>"

definition reversing_runtime :: runtime where
  "reversing_runtime = \<lparr> set_iter = rev, repr = (\<lambda>v. ''...'') \<rparr>"

definition article :: "string \<Rightarrow> string list \<Rightarrow> pyval" where
  "article l ts =
     PDict (fmap_of_list [(''sentiment'', PDict (fmap_of_list [(''label'', PStr l)])),
                          (''topics'', PList (map PStr ts))])"

definition topics_only :: "string list \<Rightarrow> pyval" where
  "topics_only ts = PDict (fmap_of_list [(''topics'', PList (map PStr ts))])"

definition label_only :: "string \<Rightarrow> pyval" where
  "label_only l = PDict (fmap_of_list [(''sentiment'', PDict (fmap_of_list [(''label'', PStr l)]))])"

definition no_fields :: pyval where
  "no_fields = PDict fmempty"



definition scan_before :: "nat \<times> nat \<Rightarrow> nat \<times> nat \<Rightarrow> bool" where
  "scan_before p q \<longleftrightarrow> fst p < fst q \<or> fst p = fst q \<and> snd p < snd q"

text \<open>The topic sets of a batch of article records, and two batches for concrete runs.\<close>

definition topic_sets :: "pyval list \<Rightarrow> pyval list list" where
  "topic_sets articles = map (\<lambda>a. remdups (topics_of a)) (topic_bearing articles)"

definition batch5 :: "pyval list" where
  "batch5 = [topics_only [''X'', ''a''], topics_only [''X'', ''b''], topics_only [''X'', ''c''],
             topics_only [''d''], label_only ''Neutral'', topics_only [''e'']]"

definition batch_ab :: "pyval list" where
  "batch_ab = [topics_only [''A'', ''B''], topics_only [''C'']]"

text \<open>The three labels that have a bucket in the sentiment distribution.\<close>

definition three_labels :: "pyval option set" where
  "three_labels = {Some (PStr ''Positive''), Some (PStr ''Negative''), Some (PStr ''Neutral'')}"

text \<open>Ten topic-bearing articles and one article without topics.\<close>

definition batch11 :: "pyval list" where
  "batch11 = [topics_only [''X'', ''a''], topics_only [''X'', ''b''], topics_only [''X'', ''c''],
              topics_only [''d''], topics_only [''e''], topics_only [''f''], topics_only [''g''],
              topics_only [''h''], topics_only [''i''], topics_only [''j''], label_only ''Neutral'']"

section \<open>Properties\<close>

subsection \<open>Well-formed article records never raise\<close>

lemma try_except_Some: "\<exists>v. try_except b (Some h) = Some v"
  by (cases b) (simp_all add: try_except_def)

lemma py_get_wf_sentiment:
  assumes "wf_article a"
  shows "\<exists>s. py_get a ''sentiment'' (PDict fmempty) = Some (PDict s) \<and>
             absent_or_str (fmlookup s ''label'')"
proof -
  from assms obtain m where a: "a = PDict m" by (cases a) simp_all
  show ?thesis
  proof (cases "fmlookup m ''sentiment''")
    case None
    then show ?thesis by (simp add: a)
  next
    case (Some v)
    with assms a obtain s where "v = PDict s" "absent_or_str (fmlookup s ''label'')"
      by (cases v) simp_all
    with Some show ?thesis by (simp add: a)
  qed
qed

lemma sentiment_label_wf:
  assumes "wf_article a"
  shows "\<exists>v. sentiment_label a d = Some v \<and> (v = d \<or> is_str v)"
proof -
  from py_get_wf_sentiment [OF assms] obtain s where
    s: "py_get a ''sentiment'' (PDict fmempty) = Some (PDict s)" "absent_or_str (fmlookup s ''label'')"
    by blast
  show ?thesis
    using s by (cases "fmlookup s ''label''") (simp_all add: sentiment_label_def)
qed

lemma impact_total: "\<exists>s. generate_impact_analysis a1 a2 = Some s"
  unfolding generate_impact_analysis_def by (rule try_except_Some)

subsection \<open>The impact analyzer\<close>



subsection \<open>The aggregator, the topic sets and the two loops on article records\<close>

lemma count_label_wf:
  "list_all wf_article arts \<Longrightarrow>
   count_label l arts = Some (length (filter (\<lambda>a. label_of a = Some (PStr l)) arts))"
proof (induction arts)
  case Nil
  then show ?case by simp
next
  case (Cons a arts)
  then have "wf_article a" by simp
  from sentiment_label_wf [OF this, of PNone] obtain v where "sentiment_label a PNone = Some v"
    by blast
  with Cons show ?case by (simp add: label_of_def)
qed

lemma is_str_hashable: "list_all is_str ts \<Longrightarrow> list_all hashable ts"
proof (induction ts)
  case Nil
  then show ?case by simp
next
  case (Cons t ts)
  then show ?case by (cases t) simp_all
qed

lemma wf_topics_cases:
  assumes "wf_article a"
  obtains (absent) m where "a = PDict m" "fmlookup m ''topics'' = None"
        | (present) m ts where "a = PDict m" "fmlookup m ''topics'' = Some (PList ts)" "list_all is_str ts"
proof -
  from assms obtain m where a: "a = PDict m" by (cases a) simp_all
  show ?thesis
  proof (cases "fmlookup m ''topics''")
    case None
    with a absent show ?thesis by blast
  next
    case (Some v)
    with assms a obtain ts where "v = PList ts" "list_all is_str ts"
      by (cases v) simp_all
    with Some a present show ?thesis by blast
  qed
qed

lemma all_topics_wf:
  "list_all wf_article arts \<Longrightarrow>
   all_topics_of arts = Some (map (\<lambda>a. remdups (topics_of a)) (topic_bearing arts))"
proof (induction arts)
  case Nil
  then show ?case by (simp add: topic_bearing_def)
next
  case (Cons a arts)
  then have wf: "wf_article a" and IH: "all_topics_of arts = Some (map (\<lambda>a. remdups (topics_of a)) (topic_bearing arts))"
    by simp_all
  from wf show ?case
  proof (cases rule: wf_topics_cases)
    case (absent m)
    then have "\<not> has_topics a" "py_in ''topics'' a = Some False"
      by (simp_all add: has_topics_def fmdom_notI)
    with IH show ?thesis by (simp add: topic_bearing_def)
  next
    case (present m ts)
    then have "has_topics a" "py_in ''topics'' a = Some True" "topics_of a = ts"
      by (simp_all add: has_topics_def topics_of_def fmdomI)
    with IH present show ?thesis by (simp add: topic_bearing_def is_str_hashable)
  qed
qed

lemma py_join_strs: "list_all is_str ts \<Longrightarrow> \<exists>s. py_join sep (take n ts) = Some s"
  by (simp add: py_join_def list_all_iff) (meson in_set_takeD)

lemma topics_slice_wf:
  assumes "wf_article a"
  shows "\<exists>ts. (py_get a ''topics'' (PList []) \<bind> py_slice3) = Some ts \<and> (\<exists>s. topics_phrase ts = Some s)"
  using assms
proof (cases rule: wf_topics_cases)
  case (absent m)
  then show ?thesis by (simp add: topics_phrase_def)
next
  case (present m ts)
  then show ?thesis using py_join_strs [of ts "'', ''" 3] by (simp add: topics_phrase_def)
qed

lemma title_wf:
  assumes "wf_article a"
  shows "\<exists>t. py_get a ''title'' d = Some t"
  using assms by (cases a) simp_all

lemma difference_entry_wf:
  assumes "wf_article ai" "wf_article aj"
  shows "\<exists>e. difference_entry rt i ai j aj = Some e"
proof -
  from topics_slice_wf [OF assms(1)] obtain ti pi where
    ti: "(py_get ai ''topics'' (PList []) \<bind> py_slice3) = Some ti" "topics_phrase ti = Some pi" by blast
  from topics_slice_wf [OF assms(2)] obtain tj pj where
    tj: "(py_get aj ''topics'' (PList []) \<bind> py_slice3) = Some tj" "topics_phrase tj = Some pj" by blast
  from title_wf [OF assms(1)] obtain tti where tti: "py_get ai ''title'' (PStr (''Article '' @ show_nat (i + 1))) = Some tti" by blast
  from title_wf [OF assms(2)] obtain ttj where ttj: "py_get aj ''title'' (PStr (''Article '' @ show_nat (j + 1))) = Some ttj" by blast
  from sentiment_label_wf [OF assms(1)] obtain li where li: "sentiment_label ai (PStr ''Unknown'') = Some li" by blast
  from sentiment_label_wf [OF assms(2)] obtain lj where lj: "sentiment_label aj (PStr ''Unknown'') = Some lj" by blast
  from impact_total obtain im where im: "generate_impact_analysis ai aj = Some im" by blast
  show ?thesis
    unfolding difference_entry_def
    by (simp only: ti tj tti ttj li lj im bind.bind_lunit) blast
qed

lemma window_upt: "[i + 1 ..< min (i + 3) n] = filter (\<lambda>j. j < n) [i + 1, i + 2]"
proof -
  consider "n \<le> i + 1" | "n = i + 2" | "i + 3 \<le> n" by linarith
  then show ?thesis
  proof cases
    case 1
    then show ?thesis by simp
  next
    case 2
    then show ?thesis by (simp add: upt_rec)
  next
    case 3
    then have "min (i + 3) n = Suc (Suc (Suc i))" by simp
    then show ?thesis using 3 by (simp add: upt_rec)
  qed
qed

lemma labels_differ_pair:
  "labels_differ arts (i, j) \<longleftrightarrow> sentiment_label (arts ! i) PNone \<noteq> sentiment_label (arts ! j) PNone"
  by (simp add: labels_differ_def label_of_def)

lemma entry_at_pair:
  "entry_at rt arts (i, j) = difference_entry rt i (arts ! i) j (arts ! j)"
  by (simp add: entry_at_def)

lemma inner_loop_wf:
  assumes "list_all wf_article arts" "i < length arts" "\<forall>j \<in> set js. j < length arts"
  shows "inner_loop rt arts i js acc =
         Some (acc @ map (\<lambda>p. the (entry_at rt arts p)) (filter (labels_differ arts) (map (Pair i) js)))"
  using assms(3)
proof (induction js arbitrary: acc)
  case Nil
  then show ?case by simp
next
  case (Cons j js)
  have wi: "wf_article (arts ! i)" using assms(1,2) by (simp add: list_all_length)
  have wj: "wf_article (arts ! j)" using assms(1) Cons.prems by (simp add: list_all_length)
  from sentiment_label_wf [OF wi, of PNone] obtain li where li: "sentiment_label (arts ! i) PNone = Some li" by blast
  from sentiment_label_wf [OF wj, of PNone] obtain lj where lj: "sentiment_label (arts ! j) PNone = Some lj" by blast
  from difference_entry_wf [OF wi wj] obtain e where e: "difference_entry rt i (arts ! i) j (arts ! j) = Some e" by blast
  have IH: "\<And>acc. inner_loop rt arts i js acc =
         Some (acc @ map (\<lambda>p. the (entry_at rt arts p)) (filter (labels_differ arts) (map (Pair i) js)))"
    using Cons by simp
  show ?case
    by (simp add: li lj e IH labels_differ_pair entry_at_pair)
qed

lemma outer_loop_wf:
  assumes "list_all wf_article arts" "\<forall>i \<in> set is. i < length arts"
  shows "outer_loop rt arts is acc =
         Some (acc @ map (\<lambda>p. the (entry_at rt arts p)) (filter (labels_differ arts)
           (concat (map (\<lambda>i. map (Pair i) (filter (\<lambda>j. j < length arts) [i + 1, i + 2])) is))))"
  using assms(2)
proof (induction "is" arbitrary: acc)
  case Nil
  then show ?case by simp
next
  case (Cons i "is")
  have i: "i < length arts" using Cons.prems by simp
  have js: "\<forall>j \<in> set (filter (\<lambda>j. j < length arts) [i + 1, i + 2]). j < length arts" by simp
  have IH: "\<And>acc. outer_loop rt arts is acc =
         Some (acc @ map (\<lambda>p. the (entry_at rt arts p)) (filter (labels_differ arts)
           (concat (map (\<lambda>i. map (Pair i) (filter (\<lambda>j. j < length arts) [i + 1, i + 2])) is))))"
    using Cons by simp
  show ?case
    by (simp only: outer_loop.simps window_upt inner_loop_wf [OF assms(1) i js] IH
        bind.bind_lunit list.map concat.simps filter_append map_append append_assoc)
qed

lemma coverage_differences_wf:
  assumes "list_all wf_article arts"
  shows "coverage_differences_of rt arts =
         Some (map (\<lambda>p. the (entry_at rt arts p)) (filter (labels_differ arts) (window_pairs (length arts))))"
  unfolding coverage_differences_of_def window_pairs_def
  by (subst outer_loop_wf [OF assms]) simp_all

lemma window_pairs_bound: "p \<in> set (window_pairs n) \<Longrightarrow> fst p < n \<and> snd p < n"
  by (auto simp add: window_pairs_def split: if_splits)


subsection \<open>The pairs of the window\<close>

lemma in_window_pairs_aux:
  "(i, j) \<in> set (window_pairs n) \<longleftrightarrow> i < n \<and> j \<in> set (filter (\<lambda>j. j < n) [i + 1, i + 2])"
  by (auto simp add: window_pairs_def simp del: filter.simps)

lemma in_window_pairs:
  "(i, j) \<in> set (window_pairs n) \<longleftrightarrow> j < n \<and> (j = i + 1 \<or> j = i + 2)"
  unfolding in_window_pairs_aux by auto

lemma sorted_wrt_concat_map:
  assumes "sorted_wrt Q xs"
      and "\<And>x. x \<in> set xs \<Longrightarrow> sorted_wrt R (f x)"
      and "\<And>x y a b. Q x y \<Longrightarrow> a \<in> set (f x) \<Longrightarrow> b \<in> set (f y) \<Longrightarrow> R a b"
  shows "sorted_wrt R (concat (map f xs))"
  using assms(1,2)
proof (induction xs)
  case Nil
  then show ?case by simp
next
  case (Cons x xs)
  then show ?case
    by (auto simp add: sorted_wrt_append intro: assms(3))
qed

lemma sorted_window_pairs: "sorted_wrt scan_before (window_pairs n)"
  unfolding window_pairs_def
proof (rule sorted_wrt_concat_map [where Q = "(<)"])
  show "sorted_wrt (<) [0..<n]" by simp
next
  fix i
  show "sorted_wrt scan_before (map (Pair i) (filter (\<lambda>j. j < n) [i + 1, i + 2]))"
    by (simp add: scan_before_def)
next
  fix x y :: nat and a b
  assume "x < y" "a \<in> set (map (Pair x) (filter (\<lambda>j. j < n) [x + 1, x + 2]))"
    "b \<in> set (map (Pair y) (filter (\<lambda>j. j < n) [y + 1, y + 2]))"
  then show "scan_before a b"
    by (auto simp add: scan_before_def simp del: filter.simps)
qed

subsection \<open>Counting topics\<close>














subsection \<open>compare_articles on article records\<close>

lemma sentiment_distribution_wf:
  assumes "list_all wf_article arts"
  shows "sentiment_distribution arts =
    Some \<lparr> Positive = length (filter (\<lambda>a. label_of a = Some (PStr ''Positive'')) arts),
           Negative = length (filter (\<lambda>a. label_of a = Some (PStr ''Negative'')) arts),
           Neutral = length (filter (\<lambda>a. label_of a = Some (PStr ''Neutral'')) arts) \<rparr>"
  by (simp add: sentiment_distribution_def count_label_wf [OF assms])

lemma compare_body_wf:
  assumes "list_all wf_article arts"
  shows "compare_body rt arts =
    Some \<lparr> Sentiment_Distribution =
             \<lparr> Positive = length (filter (\<lambda>a. label_of a = Some (PStr ''Positive'')) arts),
               Negative = length (filter (\<lambda>a. label_of a = Some (PStr ''Negative'')) arts),
               Neutral = length (filter (\<lambda>a. label_of a = Some (PStr ''Neutral'')) arts) \<rparr>,
           Coverage_Differences =
             take 5 (map (\<lambda>p. the (entry_at rt arts p))
               (filter (labels_differ arts) (window_pairs (length arts)))),
           Topic_Overlap =
             \<lparr> Common_Topics = set_iter rt (common_topics_of (topic_sets arts)),
               Unique_Topics =
                 unique_topics_of rt (topic_sets arts) (common_topics_of (topic_sets arts)) \<rparr> \<rparr>"
  unfolding compare_body_def
  by (simp add: sentiment_distribution_wf [OF assms] all_topics_wf [OF assms]
      coverage_differences_wf [OF assms] topic_sets_def Let_def)

lemma compare_articles_wf:
  assumes "list_all wf_article arts" "arts \<noteq> []"
  shows "compare_articles rt arts = compare_body rt arts"
  using assms(2) by (simp add: compare_articles_def compare_body_wf [OF assms(1)] try_except_def)

lemma compare_articles_total: "\<exists>r. compare_articles rt arts = Some r"
  unfolding compare_articles_def using try_except_Some by auto

lemma compare_articles_cases:
  "compare_articles rt arts = Some default_analysis \<or> compare_articles rt arts = compare_body rt arts"
  by (cases "compare_body rt arts") (simp_all add: compare_articles_def try_except_def)





subsection \<open>The coverage difference generator\<close>







lemma iter_ok_set: "iter_ok rt \<Longrightarrow> set (set_iter rt xs) = set xs"
  unfolding iter_ok_def by (metis set_mset_mset)

lemma iter_ok_mset: "iter_ok rt \<Longrightarrow> mset (set_iter rt xs) = mset xs"
  unfolding iter_ok_def by simp

subsection \<open>The topic overlap resolver\<close>



lemma iter_ok_reversing: "iter_ok reversing_runtime"
  by (simp add: iter_ok_def reversing_runtime_def)



text \<open>
  Claim C5. For a batch of article records there is one Unique Topics entry per
  topic-bearing article, in input order, and the entry of the \<open>i\<close>-th topic-bearing
  article is, as a set, its topics minus the Common Topics; so the entry and the Common
  Topics together cover the topics of the article, and they are disjoint.
\<close>

theorem unique_topics_difference:
  assumes "list_all wf_article articles" and "iter_ok rt"
  shows "\<exists>r. compare_articles rt articles = Some r \<and>
             length (Unique_Topics (Topic_Overlap r)) = length (topic_bearing articles) \<and>
             (\<forall>i < length (topic_bearing articles).
                set (Unique_Topics (Topic_Overlap r) ! i) =
                  set (topics_of (topic_bearing articles ! i)) - set (Common_Topics (Topic_Overlap r)) \<and>
                set (topics_of (topic_bearing articles ! i)) \<subseteq>
                  set (Unique_Topics (Topic_Overlap r) ! i) \<union> set (Common_Topics (Topic_Overlap r)) \<and>
                set (Unique_Topics (Topic_Overlap r) ! i) \<inter> set (Common_Topics (Topic_Overlap r)) = {})"
proof (cases "articles = []")
  case True
  then show ?thesis
    by (simp add: compare_articles_def default_analysis_def topic_bearing_def)
next
  case False
  let ?common = "common_topics_of (topic_sets articles)"
  have "set (unique_topics_of rt (topic_sets articles) ?common ! i) =
        set (topics_of (topic_bearing articles ! i)) - set ?common"
    if "i < length (topic_bearing articles)" for i
    using that
    by (auto simp add: unique_topics_of_def topic_sets_def iter_ok_set [OF assms(2)])
  then show ?thesis
    by (auto simp add: compare_articles_wf [OF assms(1) False] compare_body_wf [OF assms(1)]
        iter_ok_set [OF assms(2)] unique_topics_of_def topic_sets_def)
qed

text \<open>
  Claim C9, as the code has it. The Unique Topics entry of a topic-bearing article is
  built from a set: it holds every topic of the article that is not a common topic
  exactly once, in the order in which the interpreter iterates over that set. It is a
  permutation of the duplicate-free list of these topics; the input order is not kept.
\<close>

theorem unique_topics_permutation:
  assumes "list_all wf_article articles" and "iter_ok rt"
  shows "\<exists>r. compare_articles rt articles = Some r \<and>
             (\<forall>i < length (topic_bearing articles).
                mset (Unique_Topics (Topic_Overlap r) ! i) =
                  mset (remdups (filter (\<lambda>t. t \<notin> set (Common_Topics (Topic_Overlap r)))
                    (topics_of (topic_bearing articles ! i)))))"
proof (cases "articles = []")
  case True
  then show ?thesis
    by (simp add: compare_articles_def default_analysis_def topic_bearing_def)
next
  case False
  show ?thesis
    by (simp add: compare_articles_wf [OF assms(1) False] compare_body_wf [OF assms(1)]
        iter_ok_set [OF assms(2)] iter_ok_mset [OF assms(2)] unique_topics_of_def topic_sets_def
        remdups_filter)
qed

text \<open>
  The claim as stated promises the input order. A runtime that iterates over a set in
  the reverse of the order of the model's list is admissible (\<open>iter_ok_reversing\<close>),
  and with it the topics \<open>A, B\<close> of the first article come out as \<open>B, A\<close>.
\<close>

theorem unique_topics_order_counterexample:
  "compare_articles reversing_runtime batch_ab =
     Some \<lparr> Sentiment_Distribution = \<lparr> Positive = 0, Negative = 0, Neutral = 0 \<rparr>,
            Coverage_Differences = [],
            Topic_Overlap = \<lparr> Common_Topics = [],
                              Unique_Topics = [[PStr ''B'', PStr ''A''], [PStr ''C'']] \<rparr> \<rparr> \<and>
   topics_of (batch_ab ! 0) = [PStr ''A'', PStr ''B'']"
  by code_simp

subsection \<open>The overall sentiment classifier\<close>

lemma py_values_distribution:
  "py_values (distribution_dict p n u) = Some [PInt (int n), PInt (int u), PInt (int p)]"
  unfolding distribution_dict_def by code_simp

lemma py_get_distribution:
  "py_get (distribution_dict p n u) ''Positive'' d = Some (PInt (int p))"
  "py_get (distribution_dict p n u) ''Negative'' d = Some (PInt (int n))"
  by (simp_all add: distribution_dict_def)

lemma overall_body_distribution:
  assumes "fmlookup m ''Sentiment Distribution'' = Some (distribution_dict p n u)"
  shows "overall_body (PDict m) =
     Some (if p + n + u = 0 then ''Neutral''
           else verdict_of (of_nat p / of_nat (p + n + u)) (of_nat n / of_nat (p + n + u)))"
proof -
  have tot: "int n + (int u + int p) = int (p + n + u)" by simp
  show ?thesis
    unfolding overall_body_def
    by (simp add: assms py_values_distribution py_get_distribution verdict_of_def tot
        del: of_nat_add)
qed

lemma truthy_lookup: "fmlookup m k = Some v \<Longrightarrow> m \<noteq> fmempty"
  by auto


lemma lookup_analysis_data:
  "fmlookup (fmap_of_list [(''Sentiment Distribution'', distribution_dict p n u)])
     ''Sentiment Distribution'' = Some (distribution_dict p n u)"
  by simp


lemma verdict_of_verdicts: "verdict_of a b \<in> set verdicts"
  by (simp add: verdict_of_def verdicts_def)

lemma overall_body_values:
  "overall_body ad = Some v \<Longrightarrow> v \<in> set (''Neutral'' # verdicts)"
  by (auto simp add: overall_body_def verdicts_def split: bind_splits if_splits)

lemma get_overall_sentiment_total: "\<exists>v. get_overall_sentiment ad = Some v"
  unfolding get_overall_sentiment_def using try_except_Some by auto

text \<open>
  Claim C7, as the code has it. \<open>get_overall_sentiment\<close> always returns, and the value
  is one of the five verdicts or the sixth string Neutral, which the function returns
  for empty analysis data, for a total of 0 and after an exception. For a Sentiment
  Distribution with a positive total the value is one of the five verdicts. The value
  is a function of the analysis data alone.
\<close>

theorem overall_sentiment_values:
  "\<exists>v. get_overall_sentiment ad = Some v \<and> v \<in> set (''Neutral'' # verdicts) \<and>
       (\<forall>m p n u. ad = PDict m \<and>
          fmlookup m ''Sentiment Distribution'' = Some (distribution_dict p n u) \<and> 0 < p + n + u
          \<longrightarrow> v \<in> set verdicts)"
proof -
  from get_overall_sentiment_total obtain v where v: "get_overall_sentiment ad = Some v" by blast
  have "v \<in> set (''Neutral'' # verdicts)"
  proof (cases "overall_body ad")
    case None
    with v show ?thesis
      by (simp add: get_overall_sentiment_def try_except_def split: if_splits)
  next
    case (Some w)
    with v have "v = ''Neutral'' \<or> v = w"
      by (simp add: get_overall_sentiment_def try_except_def split: if_splits)
    with overall_body_values [OF Some] show ?thesis by auto
  qed
  moreover have "v \<in> set verdicts"
    if "ad = PDict m" "fmlookup m ''Sentiment Distribution'' = Some (distribution_dict p n u)"
      "0 < p + n + u" for m p n u
  proof -
    have "get_overall_sentiment (PDict m) =
      Some (verdict_of (of_nat p / of_nat (p + n + u)) (of_nat n / of_nat (p + n + u)))"
      using that(3) truthy_lookup [OF that(2)]
      by (auto simp add: get_overall_sentiment_def overall_body_distribution [OF that(2)]
          try_except_def simp del: of_nat_add)
    with v that(1) show ?thesis using verdict_of_verdicts by auto
  qed
  ultimately show ?thesis using v by blast
qed

text \<open>
  The claim as stated allows the five verdicts only; the all-zero distribution that
  \<open>compare_articles\<close> returns for an empty batch gives Neutral.
\<close>

theorem overall_sentiment_neutral_counterexample:
  "get_overall_sentiment (analysis_data_of 0 0 0) = Some ''Neutral'' \<and> ''Neutral'' \<notin> set verdicts"
  by code_simp

theorem overall_sentiment_values_witness:
  "analysis_data_of 8 1 1 = PDict (fmap_of_list [(''Sentiment Distribution'', distribution_dict 8 1 1)]) \<and>
   fmlookup (fmap_of_list [(''Sentiment Distribution'', distribution_dict 8 1 1)])
     ''Sentiment Distribution'' = Some (distribution_dict 8 1 1) \<and>
   (0 :: nat) < 8 + 1 + 1 \<and>
   (\<exists>v. get_overall_sentiment (analysis_data_of 8 1 1) = Some v \<and> v \<in> set verdicts)"
proof -
  have h1: "analysis_data_of 8 1 1 = PDict (fmap_of_list [(''Sentiment Distribution'', distribution_dict 8 1 1)])"
    by (simp add: analysis_data_of_def)
  have h2: "fmlookup (fmap_of_list [(''Sentiment Distribution'', distribution_dict 8 1 1)])
     ''Sentiment Distribution'' = Some (distribution_dict 8 1 1)"
    by (rule lookup_analysis_data)
  have h3: "(0 :: nat) < 8 + 1 + 1" by simp
  from overall_sentiment_values [of "analysis_data_of 8 1 1"] obtain v where
    v: "get_overall_sentiment (analysis_data_of 8 1 1) = Some v" and
    imp: "\<forall>m p n u. analysis_data_of 8 1 1 = PDict m \<and>
          fmlookup m ''Sentiment Distribution'' = Some (distribution_dict p n u) \<and> 0 < p + n + u
          \<longrightarrow> v \<in> set verdicts"
    by blast
  from imp [rule_format, of "fmap_of_list [(''Sentiment Distribution'', distribution_dict 8 1 1)]" 8 1 1]
    h1 h2 h3
  have "v \<in> set verdicts" by blast
  with v h1 h2 h3 show ?thesis by blast
qed

subsection \<open>Exceptions and the sentiment distribution\<close>

lemma final_body_None_indep:
  "final_body c ad o1 = None \<Longrightarrow> final_body c ad o2 = None"
  by (auto simp add: final_body_def split: bind_splits if_splits)

text \<open>
  Claim C6. \<open>compare_articles\<close> and \<open>generate_final_sentiment_text\<close> return a value on
  every input: no exception reaches the caller. When the body of \<open>compare_articles\<close>
  raises, the result is the default structure (all-zero distribution, no coverage
  differences, empty topic overlap), which is also the result for the empty batch;
  when the body of \<open>generate_final_sentiment_text\<close> raises, the result is the
  inconclusive narrative.
\<close>

theorem no_exception_propagates:
  "(\<exists>r. compare_articles rt articles = Some r) \<and>
   (compare_body rt articles = None \<longrightarrow> compare_articles rt articles = Some default_analysis) \<and>
   compare_articles rt [] = Some default_analysis \<and>
   (\<exists>s. generate_final_sentiment_text company_name analysis_data = Some s) \<and>
   (final_body company_name analysis_data overall = None \<longrightarrow>
      generate_final_sentiment_text company_name analysis_data =
        Some (inconclusive_text company_name))"
proof -
  have 1: "\<exists>r. compare_articles rt articles = Some r"
    by (rule compare_articles_total)
  have 2: "compare_body rt articles = None \<longrightarrow> compare_articles rt articles = Some default_analysis"
    by (simp add: compare_articles_def try_except_def)
  have 3: "compare_articles rt [] = Some default_analysis"
    by (simp add: compare_articles_def)
  from get_overall_sentiment_total obtain v where v: "get_overall_sentiment analysis_data = Some v"
    by blast
  have 4: "\<exists>s. generate_final_sentiment_text company_name analysis_data = Some s"
    using try_except_Some by (simp add: generate_final_sentiment_text_def v)
  have 5: "generate_final_sentiment_text company_name analysis_data =
        Some (inconclusive_text company_name)"
    if "final_body company_name analysis_data overall = None"
  proof -
    from that have "final_body company_name analysis_data v = None"
      by (rule final_body_None_indep)
    then show ?thesis
      by (simp add: generate_final_sentiment_text_def v try_except_def)
  qed
  from 1 2 3 4 5 show ?thesis by blast
qed

theorem no_exception_propagates_witness:
  "compare_body insertion_runtime [PNone] = None \<and>
   final_body ''Acme'' PNone ''Neutral'' = None \<and>
   compare_articles insertion_runtime [PNone] = Some default_analysis \<and>
   generate_final_sentiment_text ''Acme'' PNone = Some (inconclusive_text ''Acme'')"
proof -
  have h1: "compare_body insertion_runtime [PNone] = None"
    by (simp add: compare_body_def sentiment_distribution_def sentiment_label_def)
  have h2: "final_body ''Acme'' PNone ''Neutral'' = None"
    by (simp add: final_body_def)
  from no_exception_propagates [of insertion_runtime "[PNone]" "''Acme''" PNone "''Neutral''"] h1 h2
  show ?thesis by blast
qed

lemma count_label_Some:
  "count_label l arts = Some n \<Longrightarrow>
   n = length (filter (\<lambda>a. label_of a = Some (PStr l)) arts)"
proof (induction arts arbitrary: n)
  case Nil
  then show ?case by simp
next
  case (Cons a arts)
  from Cons.prems obtain v n' where
    v: "sentiment_label a PNone = Some v" and n': "count_label l arts = Some n'"
    and n: "n = (if v = PStr l then 1 else 0) + n'"
    by (auto split: bind_splits)
  from Cons.IH [OF n'] v n show ?case by (simp add: label_of_def)
qed

lemma compare_body_counts:
  assumes "compare_body rt arts = Some r"
  shows "Sentiment_Distribution r =
    \<lparr> Positive = length (filter (\<lambda>a. label_of a = Some (PStr ''Positive'')) arts),
      Negative = length (filter (\<lambda>a. label_of a = Some (PStr ''Negative'')) arts),
      Neutral = length (filter (\<lambda>a. label_of a = Some (PStr ''Neutral'')) arts) \<rparr>"
  using assms
  by (auto simp add: compare_body_def sentiment_distribution_def Let_def
      split: bind_splits dest: count_label_Some)

lemma three_filters:
  "length (filter (\<lambda>a. label_of a = Some (PStr ''Positive'')) arts) +
   length (filter (\<lambda>a. label_of a = Some (PStr ''Negative'')) arts) +
   length (filter (\<lambda>a. label_of a = Some (PStr ''Neutral'')) arts) =
   length (filter (\<lambda>a. label_of a \<in> three_labels) arts)"
  by (induction arts) (auto simp add: three_labels_def)

lemma length_filter_eq_iff: "length (filter P xs) = length xs \<longleftrightarrow> (\<forall>x \<in> set xs. P x)"
  by (metis filter_True filter_id_conv length_filter_less less_irrefl_nat linorder_not_le length_filter_le)

text \<open>
  Claim C8, as the code has it. For every batch the three counts of the returned
  Sentiment Distribution sum to at most the number of articles; the three counts are
  fields of the result, so they are always there. When the body raises, the counts are
  those of the default structure. When it does not (as for every batch of article
  records, see \<open>compare_body_wf\<close>), each count is the number of articles whose label is
  exactly that string, so an article adds to at most one count, and the sum equals the
  number of articles exactly when the label of every article is one of Positive,
  Negative and Neutral.
\<close>

theorem distribution_counts:
  "\<exists>r. compare_articles rt articles = Some r \<and>
       distribution_total r \<le> length articles \<and>
       (compare_body rt articles = None \<longrightarrow> r = default_analysis) \<and>
       (compare_body rt articles \<noteq> None \<longrightarrow>
          Positive (Sentiment_Distribution r) =
            length (filter (\<lambda>a. label_of a = Some (PStr ''Positive'')) articles) \<and>
          Negative (Sentiment_Distribution r) =
            length (filter (\<lambda>a. label_of a = Some (PStr ''Negative'')) articles) \<and>
          Neutral (Sentiment_Distribution r) =
            length (filter (\<lambda>a. label_of a = Some (PStr ''Neutral'')) articles) \<and>
          (distribution_total r = length articles \<longleftrightarrow>
             (\<forall>a \<in> set articles. label_of a \<in> three_labels)))"
proof -
  from compare_articles_total obtain r where r: "compare_articles rt articles = Some r" by blast
  have none: "r = default_analysis" if "compare_body rt articles = None"
    using that r by (simp add: compare_articles_def try_except_def split: if_splits)
  have some: "Positive (Sentiment_Distribution r) =
            length (filter (\<lambda>a. label_of a = Some (PStr ''Positive'')) articles) \<and>
          Negative (Sentiment_Distribution r) =
            length (filter (\<lambda>a. label_of a = Some (PStr ''Negative'')) articles) \<and>
          Neutral (Sentiment_Distribution r) =
            length (filter (\<lambda>a. label_of a = Some (PStr ''Neutral'')) articles) \<and>
          (distribution_total r = length articles \<longleftrightarrow>
             (\<forall>a \<in> set articles. label_of a \<in> three_labels))"
    if body: "compare_body rt articles \<noteq> None"
  proof (cases "articles = []")
    case True
    with r show ?thesis
      by (auto simp add: compare_articles_def default_analysis_def distribution_total_def)
  next
    case False
    with body r have "compare_body rt articles = Some r"
      by (auto simp add: compare_articles_def try_except_def)
    from compare_body_counts [OF this] have sd: "Sentiment_Distribution r =
        \<lparr> Positive = length (filter (\<lambda>a. label_of a = Some (PStr ''Positive'')) articles),
          Negative = length (filter (\<lambda>a. label_of a = Some (PStr ''Negative'')) articles),
          Neutral = length (filter (\<lambda>a. label_of a = Some (PStr ''Neutral'')) articles) \<rparr>" .
    then have "distribution_total r = length (filter (\<lambda>a. label_of a \<in> three_labels) articles)"
      by (simp add: distribution_total_def three_filters)
    with sd show ?thesis by (simp add: length_filter_eq_iff)
  qed
  have le: "distribution_total r \<le> length articles"
  proof (cases "compare_body rt articles")
    case None
    from none [OF this] show ?thesis by (simp add: default_analysis_def distribution_total_def)
  next
    case (Some b)
    then have "distribution_total r = length (filter (\<lambda>a. label_of a \<in> three_labels) articles)"
      using some by (simp add: distribution_total_def three_filters)
    then show ?thesis by simp
  qed
  show ?thesis
  proof (intro exI [of _ r] conjI impI)
    show "compare_articles rt articles = Some r" by (rule r)
    show "distribution_total r \<le> length articles" by (rule le)
    show "r = default_analysis" if "compare_body rt articles = None"
      using that by (rule none)
  qed (use some in simp_all)
qed

theorem distribution_counts_witness:
  "compare_body insertion_runtime [label_only ''Positive'', no_fields, label_only ''positive''] \<noteq> None \<and>
   (\<exists>r. compare_articles insertion_runtime [label_only ''Positive'', no_fields, label_only ''positive''] = Some r \<and>
      distribution_total r \<le> length [label_only ''Positive'', no_fields, label_only ''positive''] \<and>
      Positive (Sentiment_Distribution r) =
        length (filter (\<lambda>a. label_of a = Some (PStr ''Positive''))
          [label_only ''Positive'', no_fields, label_only ''positive'']) \<and>
      (distribution_total r = length [label_only ''Positive'', no_fields, label_only ''positive''] \<longleftrightarrow>
        (\<forall>a \<in> set [label_only ''Positive'', no_fields, label_only ''positive'']. label_of a \<in> three_labels)))"
proof -
  have "list_all wf_article [label_only ''Positive'', no_fields, label_only ''positive'']"
    by (simp add: label_only_def no_fields_def)
  then have h: "compare_body insertion_runtime [label_only ''Positive'', no_fields, label_only ''positive''] \<noteq> None"
    by (simp add: compare_body_wf)
  from distribution_counts [of insertion_runtime "[label_only ''Positive'', no_fields, label_only ''positive'']"] h
  show ?thesis by blast
qed

text \<open>
  The claim as stated has equality whenever every article has a label. An article with
  the label \<open>positive\<close> has one, and it is counted nowhere.
\<close>

theorem present_label_counterexample:
  "label_of (label_only ''positive'') = Some (PStr ''positive'') \<and>
   compare_body insertion_runtime [label_only ''positive''] = Some default_analysis \<and>
   compare_articles insertion_runtime [label_only ''positive''] = Some default_analysis \<and>
   distribution_total default_analysis = 0 \<and>
   length [label_only ''positive''] = 1"
  by code_simp

subsection \<open>A missing label against the label Unknown\<close>

lemma impact_resolved:
  assumes "sentiment_label article1 (PStr ''Unknown'') = Some (PStr l1)"
      and "sentiment_label article2 (PStr ''Unknown'') = Some (PStr l2)"
  shows "generate_impact_analysis article1 article2 = Some (impact_table l1 l2)"
  using assms
  by (auto simp add: generate_impact_analysis_def impact_body_def try_except_def
      impact_table_def)

lemma difference_entry_resolved:
  assumes "wf_article ai" "wf_article aj"
      and li: "sentiment_label ai (PStr ''Unknown'') = Some (PStr li)"
      and lj: "sentiment_label aj (PStr ''Unknown'') = Some (PStr lj)"
  shows "\<exists>ti pi tj pj. difference_entry rt i ai j aj =
           Some \<lparr> Comparison = comparison_text ti li pi tj lj pj, Impact = impact_table li lj \<rparr>"
proof -
  from topics_slice_wf [OF assms(1)] obtain ti pi where
    ti: "(py_get ai ''topics'' (PList []) \<bind> py_slice3) = Some ti" "topics_phrase ti = Some pi" by blast
  from topics_slice_wf [OF assms(2)] obtain tj pj where
    tj: "(py_get aj ''topics'' (PList []) \<bind> py_slice3) = Some tj" "topics_phrase tj = Some pj" by blast
  from title_wf [OF assms(1)] obtain tti where tti: "py_get ai ''title'' (PStr (''Article '' @ show_nat (i + 1))) = Some tti" by blast
  from title_wf [OF assms(2)] obtain ttj where ttj: "py_get aj ''title'' (PStr (''Article '' @ show_nat (j + 1))) = Some ttj" by blast
  note im = impact_resolved [OF li lj]
  have "difference_entry rt i ai j aj =
      Some \<lparr> Comparison = comparison_text (py_format rt tti) (py_format rt (PStr li)) pi
                (py_format rt ttj) (py_format rt (PStr lj)) pj, Impact = impact_table li lj \<rparr>"
    unfolding difference_entry_def
    by (simp only: ti tj tti ttj li lj im bind.bind_lunit)
  then show ?thesis by (simp only: py_format.simps) blast
qed

lemma sentiment_label_absent:
  assumes "wf_article a" "label_of a = Some PNone"
  shows "sentiment_label a d = Some d"
proof -
  from py_get_wf_sentiment [OF assms(1)] obtain s where
    s: "py_get a ''sentiment'' (PDict fmempty) = Some (PDict s)" "absent_or_str (fmlookup s ''label'')"
    by blast
  show ?thesis
  proof (cases "fmlookup s ''label''")
    case None
    with s show ?thesis by (simp add: sentiment_label_def)
  next
    case (Some l)
    with s assms(2) show ?thesis by (auto simp add: sentiment_label_def label_of_def)
  qed
qed

lemma sentiment_label_present:
  assumes "label_of a = Some (PStr l)"
  shows "sentiment_label a d = Some (PStr l)"
proof -
  from assms obtain sv where sv: "py_get a ''sentiment'' (PDict fmempty) = Some sv"
    "py_get sv ''label'' PNone = Some (PStr l)"
    by (auto simp add: label_of_def sentiment_label_def split: bind_splits)
  from sv(2) obtain s where "sv = PDict s" "fmlookup s ''label'' = Some (PStr l)"
    by (cases sv) (auto split: option.splits)
  with sv(1) show ?thesis by (simp add: sentiment_label_def)
qed

text \<open>
  Claim C10, as the code has it. In a batch of article records, take a pair of the
  look-ahead window with one article without a label (\<^verbatim>\<open>.get('label')\<close> is
  \<^verbatim>\<open>None\<close>) and one with the label \<open>Unknown\<close>. The generator compares \<^verbatim>\<open>None\<close> with
  \<open>Unknown\<close>, finds them different and emits a coverage difference for the pair; its
  Comparison shows \<open>Unknown\<close> for both articles. \<open>generate_impact_analysis\<close> resolves
  the missing label to \<open>Unknown\<close> as well, so its first row matches and the Impact is
  the shared-perception string.
\<close>

theorem absent_label_against_unknown:
  assumes "list_all wf_article articles"
      and "(i, j) \<in> set (window_pairs (length articles))"
      and "{label_of (articles ! i), label_of (articles ! j)} = {Some PNone, Some (PStr ''Unknown'')}"
  shows "labels_differ articles (i, j) \<and>
         (\<exists>ds e ti pi tj pj.
            coverage_differences_of rt articles = Some ds \<and> e \<in> set ds \<and>
            entry_at rt articles (i, j) = Some e \<and>
            Comparison e = comparison_text ti ''Unknown'' pi tj ''Unknown'' pj \<and>
            Impact e = shared_text)"
proof -
  from window_pairs_bound [OF assms(2)] have "i < length articles" "j < length articles" by simp_all
  with assms(1) have wi: "wf_article (articles ! i)" and wj: "wf_article (articles ! j)"
    by (simp_all add: list_all_length)
  from assms(3) have differ: "labels_differ articles (i, j)"
    by (auto simp add: labels_differ_def doubleton_eq_iff)
  from assms(3) have
    "sentiment_label (articles ! i) (PStr ''Unknown'') = Some (PStr ''Unknown'') \<and>
     sentiment_label (articles ! j) (PStr ''Unknown'') = Some (PStr ''Unknown'')"
    using sentiment_label_absent [OF wi] sentiment_label_absent [OF wj]
      sentiment_label_present [of "articles ! i"] sentiment_label_present [of "articles ! j"]
    by (auto simp add: doubleton_eq_iff)
  then obtain ti pi tj pj where
    e: "entry_at rt articles (i, j) =
        Some \<lparr> Comparison = comparison_text ti ''Unknown'' pi tj ''Unknown'' pj,
               Impact = impact_table ''Unknown'' ''Unknown'' \<rparr>"
    using difference_entry_resolved [OF wi wj, of "''Unknown''" "''Unknown''" rt i j]
    by (auto simp add: entry_at_def)
  have "the (entry_at rt articles (i, j)) \<in>
        set (map (\<lambda>p. the (entry_at rt articles p))
          (filter (labels_differ articles) (window_pairs (length articles))))"
    using assms(2) differ by auto
  with e differ show ?thesis
    by (simp add: coverage_differences_wf [OF assms(1)] impact_table_def) blast
qed

theorem absent_label_against_unknown_witness:
  "list_all wf_article [no_fields, label_only ''Unknown''] \<and>
   (0, 1) \<in> set (window_pairs (length [no_fields, label_only ''Unknown''])) \<and>
   {label_of ([no_fields, label_only ''Unknown''] ! 0), label_of ([no_fields, label_only ''Unknown''] ! 1)} =
     {Some PNone, Some (PStr ''Unknown'')} \<and>
   labels_differ [no_fields, label_only ''Unknown''] (0, 1) \<and>
   (\<exists>ds e ti pi tj pj.
      coverage_differences_of insertion_runtime [no_fields, label_only ''Unknown''] = Some ds \<and>
      e \<in> set ds \<and>
      entry_at insertion_runtime [no_fields, label_only ''Unknown''] (0, 1) = Some e \<and>
      Comparison e = comparison_text ti ''Unknown'' pi tj ''Unknown'' pj \<and>
      Impact e = shared_text)"
proof -
  have h1: "list_all wf_article [no_fields, label_only ''Unknown'']"
    by (simp add: no_fields_def label_only_def)
  have h2: "(0, 1) \<in> set (window_pairs (length [no_fields, label_only ''Unknown'']))"
    by (simp add: in_window_pairs)
  have h3: "{label_of ([no_fields, label_only ''Unknown''] ! 0), label_of ([no_fields, label_only ''Unknown''] ! 1)} =
     {Some PNone, Some (PStr ''Unknown'')}"
    by (simp add: label_of_def sentiment_label_def no_fields_def label_only_def)
  from absent_label_against_unknown [OF h1 h2 h3, of insertion_runtime] h1 h2 h3
  show ?thesis by blast
qed

text \<open>
  The claim as stated expects the generic fallback as Impact.
\<close>

theorem absent_label_impact_counterexample:
  "compare_articles insertion_runtime [no_fields, label_only ''Unknown''] =
     Some \<lparr> Sentiment_Distribution = \<lparr> Positive = 0, Negative = 0, Neutral = 0 \<rparr>,
            Coverage_Differences =
              [\<lparr> Comparison = comparison_text ''Article 1'' ''Unknown'' ''the subject''
                                ''Article 2'' ''Unknown'' ''the subject'',
                 Impact = shared_text \<rparr>],
            Topic_Overlap = \<lparr> Common_Topics = [], Unique_Topics = [] \<rparr> \<rparr> \<and>
   shared_text \<noteq> fallback_text"
  by code_simp

theorem unique_topics_difference_witness:
  "list_all wf_article batch_ab \<and> iter_ok reversing_runtime \<and>
   (\<exists>r. compare_articles reversing_runtime batch_ab = Some r \<and>
      length (Unique_Topics (Topic_Overlap r)) = length (topic_bearing batch_ab) \<and>
      (\<forall>i < length (topic_bearing batch_ab).
         set (Unique_Topics (Topic_Overlap r) ! i) =
           set (topics_of (topic_bearing batch_ab ! i)) - set (Common_Topics (Topic_Overlap r))))"
proof -
  have h1: "list_all wf_article batch_ab"
    by (simp add: batch_ab_def topics_only_def)
  have h2: "iter_ok reversing_runtime" by (rule iter_ok_reversing)
  from unique_topics_difference [OF h1 h2] h1 h2 show ?thesis by blast
qed

theorem unique_topics_permutation_witness:
  "list_all wf_article batch5 \<and> iter_ok reversing_runtime \<and>
   (\<exists>r. compare_articles reversing_runtime batch5 = Some r \<and>
      (\<forall>i < length (topic_bearing batch5).
         mset (Unique_Topics (Topic_Overlap r) ! i) =
           mset (remdups (filter (\<lambda>t. t \<notin> set (Common_Topics (Topic_Overlap r)))
             (topics_of (topic_bearing batch5 ! i))))))"
proof -
  have h1: "list_all wf_article batch5"
    by (simp add: batch5_def topics_only_def label_only_def)
  have h2: "iter_ok reversing_runtime" by (rule iter_ok_reversing)
  from unique_topics_permutation [OF h1 h2] h1 h2 show ?thesis by blast
qed

subsection \<open>Concrete runs\<close>

text \<open>
  The scenarios that the specification lists, a batch with seven differing pairs of
  which five are returned, and two malformed records.
\<close>

lemma scenario_1:
  "compare_articles insertion_runtime [article ''Positive'' [''A'', ''B''], article ''Negative'' [''A'', ''C'']] =
     Some \<lparr> Sentiment_Distribution = \<lparr> Positive = 1, Negative = 1, Neutral = 0 \<rparr>,
            Coverage_Differences =
              [\<lparr> Comparison = comparison_text ''Article 1'' ''Positive'' ''A, B''
                                ''Article 2'' ''Negative'' ''A, C'',
                 Impact = uncertainty_text \<rparr>],
            Topic_Overlap = \<lparr> Common_Topics = [PStr ''A''],
                              Unique_Topics = [[PStr ''B''], [PStr ''C'']] \<rparr> \<rparr>"
  by code_simp

lemma scenario_2:
  "map_option Coverage_Differences
     (compare_articles insertion_runtime [label_only ''Neutral'', label_only ''Neutral'', label_only ''Neutral'']) = Some []"
  "get_overall_sentiment (analysis_data_of 0 0 3) = Some ''Mixed or Neutral''"
  by code_simp+

lemma scenario_3: "get_overall_sentiment (analysis_data_of 8 1 1) = Some ''Very Positive''"
  by code_simp

lemma scenario_5:
  "generate_final_sentiment_text ''Acme'' (analysis_data_of 0 0 0) =
     Some ''No reliable sentiment data available for Acme.''"
  by code_simp

lemma scenario_6:
  "map_option (\<lambda>r. Common_Topics (Topic_Overlap r)) (compare_articles insertion_runtime batch5) =
     Some [PStr ''X'']"
  by code_simp

lemma truncation_example:
  "map_option (\<lambda>r. map Impact (Coverage_Differences r))
     (compare_articles insertion_runtime
        [label_only ''Positive'', label_only ''Negative'', label_only ''Neutral'',
         label_only ''Positive'', label_only ''Negative'']) =
   Some [uncertainty_text, counterbalance_text ''positive'', counterbalance_text ''negative'',
         interpretations_text, counterbalance_text ''positive'']"
  "length (filter (labels_differ
        [label_only ''Positive'', label_only ''Negative'', label_only ''Neutral'',
         label_only ''Positive'', label_only ''Negative''])
     (window_pairs 5)) = 7"
  by code_simp+

lemma malformed_label_example:
  "generate_impact_analysis
     (PDict (fmap_of_list [(''sentiment'', PDict (fmap_of_list [(''label'', PNone)]))]))
     (label_only ''Neutral'') = Some unavailable_text"
  by code_simp

lemma malformed_topics_example:
  "compare_articles insertion_runtime
     [label_only ''Positive'', PDict (fmap_of_list [(''topics'', PNone)])] = Some default_analysis"
  by code_simp

text \<open>
  A topic in 3 of 10 topic sets is common although the batch has 11 articles, for which
  the threshold would be 4.
\<close>

lemma threshold_uses_topic_sets:
  "map_option (\<lambda>r. Common_Topics (Topic_Overlap r)) (compare_articles insertion_runtime batch11) =
     Some [PStr ''X'']"
  "topic_frequency batch11 (PStr ''X'') = 3"
  "spec_threshold batch11 = 3"
  "length batch11 = 11"
  "max 2 \<lceil>(3 / 10 :: rat) * of_nat (length batch11)\<rceil> = 4"
  by code_simp+

end
